theory Spec2Isabelle
  imports Main
begin

section \<open>The vanilla.js recipe of create-tauri-app\<close>

text \<open>
  The module \<^verbatim>\<open>src/tooling/create-tauri-app/src/recipes/vanilla.ts\<close> exports one
  object, \<^verbatim>\<open>vanillajs\<close>, with a pure function \<^verbatim>\<open>configUpdate\<close> and two asynchronous
  hooks, \<^verbatim>\<open>preInit\<close> and \<^verbatim>\<open>postInit\<close>. The hooks are awaited by their caller, so they
  are modelled as sequential functions on an explicit world (the file tree and the
  console).
\<close>

subsection \<open>Values and the project configuration\<close>

text \<open>
  Modelled from the spec: the type of the configuration is declared in the parent module
  (imported as \<^verbatim>\<open>Recipe\<close> from \<^verbatim>\<open>".."\<close>), which is not among the sources. The spec
  describes it as a mapping of string keys to string or primitive values: here strings,
  booleans, \<^verbatim>\<open>null\<close> and \<^verbatim>\<open>undefined\<close> (no setting that the recipe reads or writes is a
  number). Reading a property that the object does not have yields \<^verbatim>\<open>undefined\<close>. The
  package manager, the working directory and the module directory are strings.
\<close>

datatype jsval = JUndefined | JNull | JBool bool | JStr string

type_synonym config = "string \<rightharpoonup> jsval"

definition get_prop :: "config \<Rightarrow> string \<Rightarrow> jsval" where
  "get_prop cfg k = (case cfg k of None \<Rightarrow> JUndefined | Some v \<Rightarrow> v)"

subsection \<open>configUpdate\<close>

text \<open>
  The object literal spreads \<^verbatim>\<open>cfg\<close> and then defines four properties, in this order.
  The package manager is compared with \<^verbatim>\<open>"yarn"\<close> only.
\<close>

definition configUpdate :: "config \<Rightarrow> string \<Rightarrow> config" where
  "configUpdate cfg packageManager =
     cfg(''distDir'' \<mapsto> JStr ''../dist'',
         ''devPath'' \<mapsto> JStr ''../dist'',
         ''beforeDevCommand'' \<mapsto>
            JStr ((if packageManager = ''yarn'' then ''yarn'' else ''npm run'') @ '' start''),
         ''beforeBuildCommand'' \<mapsto>
            JStr ((if packageManager = ''yarn'' then ''yarn'' else ''npm run'') @ '' build''))"

subsection \<open>What the body of configUpdate reads\<close>

text \<open>
  A call of \<^verbatim>\<open>configUpdate\<close> happens in an environment that holds more than its two
  arguments: module variables, globals, the clock, files. To say what the body depends
  on, its object literal is written down as syntax and evaluated in such an environment,
  where \<open>hidden\<close> gives the value that a free identifier would have. The literal consists of
  the spread of the parameter \<^verbatim>\<open>cfg\<close> and four properties; their values are template
  literals (\<open>Concat\<close>) over string literals, the parameter \<^verbatim>\<open>packageManager\<close> and the
  conditional \<^verbatim>\<open>a === b ? c : d\<close> (\<open>Cond a b c d\<close>). \<open>Global\<close> is the read of a free
  identifier, which the body does not contain.
\<close>

datatype expr =
    Lit string
  | PackageManager
  | Global string
  | Cond expr expr expr expr
  | Concat expr expr

datatype member = Spread_cfg | Property string expr

record call_env =
  arg_cfg :: config
  arg_packageManager :: string
  hidden :: "string \<Rightarrow> string"

fun eval_expr :: "call_env \<Rightarrow> expr \<Rightarrow> string" where
  "eval_expr env (Lit s) = s"
| "eval_expr env PackageManager = arg_packageManager env"
| "eval_expr env (Global x) = hidden env x"
| "eval_expr env (Cond a b c d) =
     (if eval_expr env a = eval_expr env b then eval_expr env c else eval_expr env d)"
| "eval_expr env (Concat a b) = eval_expr env a @ eval_expr env b"

text \<open>The members of an object literal are defined from left to right.\<close>

fun object_literal :: "call_env \<Rightarrow> member list \<Rightarrow> config \<Rightarrow> config" where
  "object_literal env [] obj = obj"
| "object_literal env (Spread_cfg # ms) obj = object_literal env ms (obj ++ arg_cfg env)"
| "object_literal env (Property k e # ms) obj =
     object_literal env ms (obj(k \<mapsto> JStr (eval_expr env e)))"

fun reads_hidden :: "expr \<Rightarrow> bool" where
  "reads_hidden (Lit s) = False"
| "reads_hidden PackageManager = False"
| "reads_hidden (Global x) = True"
| "reads_hidden (Cond a b c d) =
     (reads_hidden a \<or> reads_hidden b \<or> reads_hidden c \<or> reads_hidden d)"
| "reads_hidden (Concat a b) = (reads_hidden a \<or> reads_hidden b)"

fun member_reads_hidden :: "member \<Rightarrow> bool" where
  "member_reads_hidden Spread_cfg = False"
| "member_reads_hidden (Property k e) = reads_hidden e"

definition configUpdate_body :: "member list" where
  "configUpdate_body =
     [Spread_cfg,
      Property ''distDir'' (Lit ''../dist''),
      Property ''devPath'' (Lit ''../dist''),
      Property ''beforeDevCommand''
        (Concat (Cond PackageManager (Lit ''yarn'') (Lit ''yarn'') (Lit ''npm run''))
           (Lit '' start'')),
      Property ''beforeBuildCommand''
        (Concat (Cond PackageManager (Lit ''yarn'') (Lit ''yarn'') (Lit ''npm run''))
           (Lit '' build''))]"

definition configUpdate_call :: "call_env \<Rightarrow> config" where
  "configUpdate_call env = object_literal env configUpdate_body Map.empty"

subsection \<open>Errors, the console and the file tree\<close>

text \<open>
  A thrown value is either the \<^verbatim>\<open>TypeError\<close> that Node raises for an argument of the
  wrong type, or whatever the template generator rejects with.
\<close>

datatype js_error = TypeError string | Failure string

datatype log_entry = LogText string | LogError js_error

type_synonym file_tree = "string \<rightharpoonup> string"

record world =
  files :: file_tree
  console :: "log_entry list"

definition console_log :: "log_entry \<Rightarrow> world \<Rightarrow> world" where
  "console_log entry w = w\<lparr>console := console w @ [entry]\<rparr>"

text \<open>String conversion of a value substituted into a template literal.\<close>

fun to_string :: "jsval \<Rightarrow> string" where
  "to_string JUndefined = ''undefined''"
| "to_string JNull = ''null''"
| "to_string (JBool b) = (if b then ''true'' else ''false'')"
| "to_string (JStr s) = s"

subsection \<open>The library function join of Node's path module (POSIX)\<close>

text \<open>
  \<^verbatim>\<open>join\<close> rejects an argument that is not a string, joins the non-empty arguments
  with a slash and normalises the result: empty and \<^verbatim>\<open>.\<close> segments are dropped, a
  \<^verbatim>\<open>..\<close> segment removes the segment before it (and is kept in front of a relative
  path that has nothing left to remove), a trailing slash is kept.
\<close>

fun validate_paths :: "jsval list \<Rightarrow> js_error + string list" where
  "validate_paths [] = Inr []"
| "validate_paths (JStr s # vs) =
     (case validate_paths vs of Inl e \<Rightarrow> Inl e | Inr ss \<Rightarrow> Inr (s # ss))"
| "validate_paths (v # vs) = Inl (TypeError ''ERR_INVALID_ARG_TYPE'')"

fun join_slash :: "string list \<Rightarrow> string" where
  "join_slash [] = []"
| "join_slash [s] = s"
| "join_slash (s # t # ss) = s @ ''/'' @ join_slash (t # ss)"

fun split_slash :: "string \<Rightarrow> string list" where
  "split_slash [] = [[]]"
| "split_slash (c # cs) =
     (if c = CHR ''/'' then [] # split_slash cs
      else (case split_slash cs of [] \<Rightarrow> [[c]] | s # ss \<Rightarrow> (c # s) # ss))"

fun normalize_segments :: "bool \<Rightarrow> string list \<Rightarrow> string list \<Rightarrow> string list" where
  "normalize_segments allowAboveRoot res [] = res"
| "normalize_segments allowAboveRoot res (s # ss) =
     (if s = [] \<or> s = ''.'' then normalize_segments allowAboveRoot res ss
      else if s = ''..'' then
        (if res \<noteq> [] \<and> last res \<noteq> ''..''
           then normalize_segments allowAboveRoot (butlast res) ss
         else if allowAboveRoot
           then normalize_segments allowAboveRoot (res @ [''..'']) ss
         else normalize_segments allowAboveRoot res ss)
      else normalize_segments allowAboveRoot (res @ [s]) ss)"

definition normalize :: "string \<Rightarrow> string" where
  "normalize path =
     (if path = [] then ''.''
      else
        let isAbsolute = (hd path = CHR ''/'');
            trailingSeparator = (last path = CHR ''/'');
            p = join_slash (normalize_segments (\<not> isAbsolute) [] (split_slash path))
        in if p = [] then (if isAbsolute then ''/'' else if trailingSeparator then ''./'' else ''.'')
           else (if isAbsolute then ''/'' else []) @ p @ (if trailingSeparator then ''/'' else []))"

definition join_strings :: "string list \<Rightarrow> string" where
  "join_strings args =
     (let joined = join_slash (filter (\<lambda>arg. arg \<noteq> []) args)
      in if joined = [] then ''.'' else normalize joined)"

definition join :: "jsval list \<Rightarrow> js_error + string" where
  "join args = (case validate_paths args of Inl e \<Rightarrow> Inl e | Inr ss \<Rightarrow> Inr (join_strings ss))"

subsection \<open>preInit\<close>

text \<open>
  \<^verbatim>\<open>scaffe.generate\<close> is an external library: it is a parameter of the model, a function
  from the template directory, the target directory, the options and the file tree to the
  error it rejects with (if any) and the file tree it leaves behind. The module's own
  directory (\<^verbatim>\<open>__dirname\<close>) is a parameter as well.
\<close>

record gen_options =
  overwrite :: bool
  variables :: "(string \<times> jsval) list"

type_synonym generator =
  "string \<Rightarrow> string \<Rightarrow> gen_options \<Rightarrow> file_tree \<Rightarrow> js_error option \<times> file_tree"

text \<open>
  The body of the \<^verbatim>\<open>try\<close> block: the arguments of the call are evaluated first, so a
  \<^verbatim>\<open>TypeError\<close> of \<^verbatim>\<open>join(cwd, appName)\<close> is raised inside the block, before the generator
  runs.
\<close>

definition generate_step ::
  "generator \<Rightarrow> string \<Rightarrow> string \<Rightarrow> jsval \<Rightarrow> file_tree \<Rightarrow> js_error option \<times> file_tree" where
  "generate_step generate templateDir cwd appName fs =
     (case join [JStr cwd, appName] of
        Inl err \<Rightarrow> (Some err, fs)
      | Inr target \<Rightarrow>
          generate templateDir target
            \<lparr>overwrite = True, variables = [(''name'', appName)]\<rparr> fs)"

text \<open>
  The destructuring of \<^verbatim>\<open>cfg\<close> and the first \<^verbatim>\<open>join\<close> are outside the \<^verbatim>\<open>try\<close> block:
  an error there would leave \<^verbatim>\<open>preInit\<close>. The handler logs the error and falls through.
\<close>

definition preInit :: "generator \<Rightarrow> string \<Rightarrow> string \<Rightarrow> config \<Rightarrow> world \<Rightarrow> js_error + world" where
  "preInit generate dirname cwd cfg w =
     (let appName = get_prop cfg ''appName'' in
      case join [JStr dirname, JStr ''../src/templates/vanilla''] of
        Inl e \<Rightarrow> Inl e
      | Inr templateDir \<Rightarrow>
          (case generate_step generate templateDir cwd appName (files w) of
             (None, fs) \<Rightarrow> Inr (w\<lparr>files := fs\<rparr>)
           | (Some err, fs) \<Rightarrow> Inr (console_log (LogError err) (w\<lparr>files := fs\<rparr>))))"

text \<open>
  What \<^verbatim>\<open>preInit\<close> writes is decided by the generator. Its contract, for a relation
  \<open>within root p\<close> between a directory and the paths inside it: a call leaves every path
  outside its target as it was.
\<close>

definition unchanged_outside ::
  "(string \<Rightarrow> string \<Rightarrow> bool) \<Rightarrow> string \<Rightarrow> file_tree \<Rightarrow> file_tree \<Rightarrow> bool" where
  "unchanged_outside within root fs fs' = (\<forall>p. \<not> within root p \<longrightarrow> fs' p = fs p)"

definition writes_only_within :: "(string \<Rightarrow> string \<Rightarrow> bool) \<Rightarrow> generator \<Rightarrow> bool" where
  "writes_only_within within generate =
     (\<forall>templateDir target opts fs.
        unchanged_outside within target fs (snd (generate templateDir target opts fs)))"

subsection \<open>postInit\<close>

definition setApp :: "string \<Rightarrow> string" where
  "setApp packageManager =
     (if packageManager = ''npm''
      then ''\<newline>set tauri script once\<newline>  $ npm set-script tauri tauri\<newline>    ''
      else [])"

definition postInit_message :: "config \<Rightarrow> string \<Rightarrow> string" where
  "postInit_message cfg packageManager = concat
     [''\<newline>change directory:\<newline>  $ cd '', to_string (get_prop cfg ''appName''),
      ''\<newline>'', setApp packageManager,
      ''\<newline>install dependencies:\<newline>  $ '', packageManager,
      '' install\<newline>\<newline>run the app:\<newline>  $ '',
      (if packageManager = ''yarn'' then ''yarn'' else ''npm run''),
      '' tauri '',
      (if packageManager = ''npm'' then ''-- '' else []),
      ''dev\<newline>            '']"

definition postInit :: "config \<Rightarrow> string \<Rightarrow> world \<Rightarrow> js_error + world" where
  "postInit cfg packageManager w =
     Inr (console_log (LogText (postInit_message cfg packageManager)) w)"

subsection \<open>postInit on run-time values\<close>

text \<open>
  The type of the configuration is erased at run time, and \<^verbatim>\<open>postInit\<close> has no
  \<^verbatim>\<open>try\<close> block. A template literal converts each substituted value to a string, from
  left to right; the conversion raises a \<^verbatim>\<open>TypeError\<close> for a Symbol, the one primitive
  value beyond those of the configuration type. The text is logged after the literal has
  been evaluated.
\<close>

datatype runtime_value = Typed jsval | JSymbol string

type_synonym runtime_config = "string \<rightharpoonup> runtime_value"

definition get_runtime_prop :: "runtime_config \<Rightarrow> string \<Rightarrow> runtime_value" where
  "get_runtime_prop cfg k = (case cfg k of None \<Rightarrow> Typed JUndefined | Some v \<Rightarrow> v)"

fun ToString :: "runtime_value \<Rightarrow> js_error + string" where
  "ToString (Typed v) = Inr (to_string v)"
| "ToString (JSymbol description) =
     Inl (TypeError ''Cannot convert a Symbol value to a string'')"

datatype quasi = Chunk string | Subst runtime_value

fun template_literal :: "quasi list \<Rightarrow> js_error + string" where
  "template_literal [] = Inr []"
| "template_literal (Chunk s # qs) =
     (case template_literal qs of Inl e \<Rightarrow> Inl e | Inr rest \<Rightarrow> Inr (s @ rest))"
| "template_literal (Subst v # qs) =
     (case ToString v of
        Inl e \<Rightarrow> Inl e
      | Inr s \<Rightarrow>
          (case template_literal qs of Inl e \<Rightarrow> Inl e | Inr rest \<Rightarrow> Inr (s @ rest)))"

definition postInit_runtime :: "runtime_config \<Rightarrow> string \<Rightarrow> world \<Rightarrow> js_error + world" where
  "postInit_runtime cfg packageManager w =
     (case template_literal
        [Chunk ''\<newline>change directory:\<newline>  $ cd '',
         Subst (get_runtime_prop cfg ''appName''),
         Chunk ''\<newline>'', Subst (Typed (JStr (setApp packageManager))),
         Chunk ''\<newline>install dependencies:\<newline>  $ '', Subst (Typed (JStr packageManager)),
         Chunk '' install\<newline>\<newline>run the app:\<newline>  $ '',
         Subst (Typed (JStr (if packageManager = ''yarn'' then ''yarn'' else ''npm run''))),
         Chunk '' tauri '',
         Subst (Typed (JStr (if packageManager = ''npm'' then ''-- '' else []))),
         Chunk ''dev\<newline>            '']
      of Inl e \<Rightarrow> Inl e
       | Inr text \<Rightarrow> Inr (console_log (LogText text) w))"

subsection \<open>Sample generators\<close>

text \<open>
  Two concrete generators, used to run \<^verbatim>\<open>preInit\<close> on examples: one rejects after it
  has created the target, the other writes one file below the target. A path is inside a
  root when it is the root or continues it after a slash.
\<close>

definition failing_generator :: generator where
  "failing_generator templateDir target opts fs =
     (Some (Failure ''EACCES''), fs(target \<mapsto> []))"

definition writing_generator :: generator where
  "writing_generator templateDir target opts fs =
     (None, fs(target @ ''/index.html'' \<mapsto> templateDir))"

definition inside :: "string \<Rightarrow> string \<Rightarrow> bool" where
  "inside root p = (p = root \<or> take (Suc (length root)) p = root @ ''/'')"

section \<open>Properties of configUpdate\<close>

text \<open>
  C1: with the package manager \<^verbatim>\<open>"yarn"\<close> the returned configuration has
  \<^verbatim>\<open>beforeDevCommand = "yarn start"\<close> and \<^verbatim>\<open>beforeBuildCommand = "yarn build"\<close>; with
  \<^verbatim>\<open>"npm"\<close> they are \<^verbatim>\<open>"npm run start"\<close> and \<^verbatim>\<open>"npm run build"\<close>, whatever the input
  configuration is.
\<close>

theorem configUpdate_yarn_npm_commands:
  "configUpdate cfg ''yarn'' ''beforeDevCommand'' = Some (JStr ''yarn start'') \<and>
   configUpdate cfg ''yarn'' ''beforeBuildCommand'' = Some (JStr ''yarn build'') \<and>
   configUpdate cfg ''npm'' ''beforeDevCommand'' = Some (JStr ''npm run start'') \<and>
   configUpdate cfg ''npm'' ''beforeBuildCommand'' = Some (JStr ''npm run build'')"
  by (simp add: configUpdate_def)

text \<open>
  C2: a key outside the four that the recipe defines is mapped by the result to exactly
  what the input maps it to; a key the input does not have stays absent.
\<close>

theorem configUpdate_frame:
  "k \<notin> {''distDir'', ''devPath'', ''beforeDevCommand'', ''beforeBuildCommand''} \<Longrightarrow>
   configUpdate cfg packageManager k = cfg k"
  by (simp add: configUpdate_def)

theorem configUpdate_frame_witness:
  "''appName'' \<notin> {''distDir'', ''devPath'', ''beforeDevCommand'', ''beforeBuildCommand''} \<and>
   configUpdate [''appName'' \<mapsto> JStr ''my-app'', ''distDir'' \<mapsto> JStr ''build''] ''npm'' ''appName''
     = Some (JStr ''my-app'')"
  using configUpdate_frame
    [of "''appName''" "[''appName'' \<mapsto> JStr ''my-app'', ''distDir'' \<mapsto> JStr ''build'']" "''npm''"]
  by simp

text \<open>
  C3: applying \<^verbatim>\<open>configUpdate\<close> to its own result, with the same package manager, gives the
  same configuration again.
\<close>

theorem configUpdate_idempotent:
  "configUpdate (configUpdate cfg packageManager) packageManager = configUpdate cfg packageManager"
  by (rule ext) (simp add: configUpdate_def)

lemma eval_expr_without_hidden:
  "\<not> reads_hidden e \<Longrightarrow> arg_packageManager env1 = arg_packageManager env2 \<Longrightarrow>
   eval_expr env1 e = eval_expr env2 e"
  by (induction e) simp_all

lemma object_literal_without_hidden:
  "\<not> list_ex member_reads_hidden ms \<Longrightarrow> arg_cfg env1 = arg_cfg env2 \<Longrightarrow>
   arg_packageManager env1 = arg_packageManager env2 \<Longrightarrow>
   object_literal env1 ms obj = object_literal env2 ms obj"
proof (induction ms arbitrary: obj)
  case Nil
  then show ?case by simp
next
  case (Cons m ms)
  then show ?case
    by (cases m) (simp_all add: eval_expr_without_hidden [of _ env1 env2])
qed

lemma configUpdate_call_eq:
  "configUpdate_call env = configUpdate (arg_cfg env) (arg_packageManager env)"
  by (simp add: configUpdate_call_def configUpdate_body_def configUpdate_def)

text \<open>
  C4: two calls of \<^verbatim>\<open>configUpdate\<close> whose environments agree on the two arguments return
  the same configuration, whatever else the two environments hold: no member of the body
  reads a free identifier. The configuration returned is the one that \<open>configUpdate\<close>
  computes from the two arguments alone.
\<close>

theorem configUpdate_deterministic:
  assumes "arg_cfg env1 = arg_cfg env2"
      and "arg_packageManager env1 = arg_packageManager env2"
  shows "configUpdate_call env1 = configUpdate_call env2 \<and>
         configUpdate_call env1 = configUpdate (arg_cfg env1) (arg_packageManager env1)"
proof -
  have "\<not> list_ex member_reads_hidden configUpdate_body"
    by (simp add: configUpdate_body_def)
  then have "object_literal env1 configUpdate_body Map.empty
               = object_literal env2 configUpdate_body Map.empty"
    using assms by (rule object_literal_without_hidden)
  then show ?thesis
    by (simp add: configUpdate_call_def [symmetric] configUpdate_call_eq)
qed

theorem configUpdate_deterministic_witness:
  "arg_cfg \<lparr>arg_cfg = [''appName'' \<mapsto> JStr ''my-app''], arg_packageManager = ''yarn'',
            hidden = (\<lambda>x. ''first run'')\<rparr>
     = arg_cfg \<lparr>arg_cfg = [''appName'' \<mapsto> JStr ''my-app''], arg_packageManager = ''yarn'',
                hidden = (\<lambda>x. ''second run'')\<rparr> \<and>
   arg_packageManager \<lparr>arg_cfg = [''appName'' \<mapsto> JStr ''my-app''],
            arg_packageManager = ''yarn'', hidden = (\<lambda>x. ''first run'')\<rparr>
     = arg_packageManager \<lparr>arg_cfg = [''appName'' \<mapsto> JStr ''my-app''],
            arg_packageManager = ''yarn'', hidden = (\<lambda>x. ''second run'')\<rparr> \<and>
   hidden \<lparr>arg_cfg = [''appName'' \<mapsto> JStr ''my-app''], arg_packageManager = ''yarn'',
            hidden = (\<lambda>x. ''first run'')\<rparr> ''Date.now''
     \<noteq> hidden \<lparr>arg_cfg = [''appName'' \<mapsto> JStr ''my-app''], arg_packageManager = ''yarn'',
                hidden = (\<lambda>x. ''second run'')\<rparr> ''Date.now'' \<and>
   configUpdate_call \<lparr>arg_cfg = [''appName'' \<mapsto> JStr ''my-app''], arg_packageManager = ''yarn'',
            hidden = (\<lambda>x. ''first run'')\<rparr>
     = configUpdate_call \<lparr>arg_cfg = [''appName'' \<mapsto> JStr ''my-app''],
            arg_packageManager = ''yarn'', hidden = (\<lambda>x. ''second run'')\<rparr>"
  using configUpdate_deterministic
    [of "\<lparr>arg_cfg = [''appName'' \<mapsto> JStr ''my-app''], arg_packageManager = ''yarn'',
           hidden = (\<lambda>x. ''first run'')\<rparr>"
        "\<lparr>arg_cfg = [''appName'' \<mapsto> JStr ''my-app''], arg_packageManager = ''yarn'',
           hidden = (\<lambda>x. ''second run'')\<rparr>"]
  by simp

text \<open>
  C9: whatever the input configuration and the package manager, the result has
  \<^verbatim>\<open>distDir = "../dist"\<close> and \<^verbatim>\<open>devPath = "../dist"\<close>.
\<close>

theorem configUpdate_dist_paths:
  "configUpdate cfg packageManager ''distDir'' = Some (JStr ''../dist'') \<and>
   configUpdate cfg packageManager ''devPath'' = Some (JStr ''../dist'')"
  by (simp add: configUpdate_def)

section \<open>Properties of postInit\<close>

text \<open>
  C5: \<^verbatim>\<open>postInit\<close> logs one text. After the leading line break it consists of four
  consecutive parts: the change-directory step, the step that registers the tauri script
  (the whole part is empty unless the package manager is \<^verbatim>\<open>"npm"\<close>), the install step and
  the run step.
\<close>

theorem postInit_steps_in_order:
  "postInit cfg packageManager w =
     Inr (w\<lparr>console := console w @ [LogText (
       ''\<newline>'' @
       (''change directory:\<newline>  $ cd '' @ to_string (get_prop cfg ''appName'') @ ''\<newline>'') @
       (if packageManager = ''npm''
        then ''\<newline>set tauri script once\<newline>  $ npm set-script tauri tauri\<newline>    ''
        else []) @
       (''\<newline>install dependencies:\<newline>  $ '' @ packageManager @ '' install\<newline>'') @
       (''\<newline>run the app:\<newline>  $ '' @
          (if packageManager = ''yarn'' then ''yarn tauri dev''
           else if packageManager = ''npm'' then ''npm run tauri -- dev''
           else ''npm run tauri dev'') @ ''\<newline>            ''))]\<rparr>)"
  by (simp add: postInit_def postInit_message_def setApp_def console_log_def)

lemma postInit_runtime_typed:
  "postInit_runtime (map_option Typed \<circ> cfg) packageManager w = postInit cfg packageManager w"
  by (cases "cfg ''appName''")
    (simp_all add: postInit_runtime_def postInit_def postInit_message_def get_runtime_prop_def
      get_prop_def)

text \<open>
  C8, as the code has it: \<^verbatim>\<open>postInit\<close> completes without raising, and logs its text,
  exactly when the conversion of \<^verbatim>\<open>cfg.appName\<close> to a string does not raise, that is for
  a missing application name and for every string, boolean, \<^verbatim>\<open>null\<close> and \<^verbatim>\<open>undefined\<close>,
  with any package manager. It has no handler: for a Symbol the \<^verbatim>\<open>TypeError\<close> of the
  conversion leaves \<^verbatim>\<open>postInit\<close>, and no text is logged in its place.
\<close>

theorem postInit_raises_for_symbol_only:
  "postInit_runtime cfg packageManager w =
     (case get_runtime_prop cfg ''appName'' of
        JSymbol description \<Rightarrow> Inl (TypeError ''Cannot convert a Symbol value to a string'')
      | Typed v \<Rightarrow>
          Inr (w\<lparr>console := console w @
                 [LogText (postInit_message [''appName'' \<mapsto> v] packageManager)]\<rparr>))"
  by (cases "get_runtime_prop cfg ''appName''")
    (simp_all add: postInit_runtime_def postInit_message_def get_prop_def console_log_def)

text \<open>
  C8 as stated fails: with a Symbol as application name and the package manager
  \<^verbatim>\<open>"npm"\<close>, \<^verbatim>\<open>postInit\<close> raises.
\<close>

theorem postInit_symbol_counterexample:
  "postInit_runtime [''appName'' \<mapsto> JSymbol ''my-app''] ''npm''
      \<lparr>files = Map.empty, console = []\<rparr>
     = Inl (TypeError ''Cannot convert a Symbol value to a string'')"
  by (simp add: postInit_runtime_def get_runtime_prop_def)



section \<open>Properties of preInit\<close>

lemma validate_paths_strings: "validate_paths (map JStr ss) = Inr ss"
  by (induction ss) simp_all

lemma join_strings_ok: "join [JStr a, JStr b] = Inr (join_strings [a, b])"
  using validate_paths_strings [of "[a, b]"] by (simp add: join_def)

lemma preInit_returns: "\<exists>w'. preInit generate dirname cwd cfg w = Inr w'"
  by (simp add: preInit_def join_strings_ok split: prod.split option.split)

text \<open>
  C6: when the template-generation step (the body of the \<^verbatim>\<open>try\<close> block) raises an error,
  \<^verbatim>\<open>preInit\<close> returns normally; the error is appended to the console and the file tree is
  the one the failed step left behind.
\<close>

theorem preInit_catches_generate_error:
  assumes "generate_step generate (join_strings [dirname, ''../src/templates/vanilla'']) cwd
             (get_prop cfg ''appName'') (files w) = (Some err, fs)"
  shows "preInit generate dirname cwd cfg w =
           Inr (w\<lparr>files := fs, console := console w @ [LogError err]\<rparr>)"
  using assms by (simp add: preInit_def join_strings_ok console_log_def)

theorem preInit_catches_generate_error_witness:
  "generate_step failing_generator (join_strings [''/pkg/dist'', ''../src/templates/vanilla''])
      ''/tmp/x'' (get_prop [''appName'' \<mapsto> JStr ''my-app''] ''appName'')
      (files \<lparr>files = Map.empty, console = []\<rparr>)
     = (Some (Failure ''EACCES''), [''/tmp/x/my-app'' \<mapsto> []]) \<and>
   preInit failing_generator ''/pkg/dist'' ''/tmp/x'' [''appName'' \<mapsto> JStr ''my-app'']
      \<lparr>files = Map.empty, console = []\<rparr>
     = Inr \<lparr>files = [''/tmp/x/my-app'' \<mapsto> []], console = [LogError (Failure ''EACCES'')]\<rparr>"
proof -
  have h: "generate_step failing_generator
      (join_strings [''/pkg/dist'', ''../src/templates/vanilla''])
      ''/tmp/x'' (get_prop [''appName'' \<mapsto> JStr ''my-app''] ''appName'')
      (files \<lparr>files = Map.empty, console = []\<rparr>)
     = (Some (Failure ''EACCES''), [''/tmp/x/my-app'' \<mapsto> []])"
    by (simp add: generate_step_def get_prop_def failing_generator_def join_def
        join_strings_def normalize_def)
  show ?thesis
    using h preInit_catches_generate_error [OF h] by simp
qed

text \<open>
  C7: when the configuration holds the application name as a string, \<^verbatim>\<open>preInit\<close> returns
  normally and the file tree it leaves is the one the generator leaves when called with the
  template directory, the target directory \<^verbatim>\<open>join(cwd, appName)\<close>, \<^verbatim>\<open>overwrite: true\<close> and the
  variable \<^verbatim>\<open>name\<close>. So if the generator changes no path outside its target (for any
  notion \<open>within\<close> of being inside a directory), \<^verbatim>\<open>preInit\<close> changes no path outside
  \<^verbatim>\<open>join(cwd, appName)\<close>. For \<^verbatim>\<open>/tmp/x\<close> and \<^verbatim>\<open>my-app\<close> the target is \<^verbatim>\<open>/tmp/x/my-app\<close>.
\<close>

theorem preInit_target_directory:
  assumes "cfg ''appName'' = Some (JStr appName)"
  shows "join_strings [''/tmp/x'', ''my-app''] = ''/tmp/x/my-app'' \<and>
         (case preInit generate dirname cwd cfg w of
            Inl e \<Rightarrow> False
          | Inr w' \<Rightarrow>
              files w' = snd (generate (join_strings [dirname, ''../src/templates/vanilla''])
                                 (join_strings [cwd, appName])
                                 \<lparr>overwrite = True, variables = [(''name'', JStr appName)]\<rparr>
                                 (files w)) \<and>
              (writes_only_within within generate \<longrightarrow>
               unchanged_outside within (join_strings [cwd, appName]) (files w) (files w')))"
proof -
  have ex: "join_strings [''/tmp/x'', ''my-app''] = ''/tmp/x/my-app''"
    by (simp add: join_strings_def normalize_def)
  let ?g = "generate (join_strings [dirname, ''../src/templates/vanilla''])
              (join_strings [cwd, appName])
              \<lparr>overwrite = True, variables = [(''name'', JStr appName)]\<rparr>
              (files w)"
  have step: "generate_step generate (join_strings [dirname, ''../src/templates/vanilla'']) cwd
                 (get_prop cfg ''appName'') (files w) = ?g"
    using assms by (simp add: generate_step_def get_prop_def join_strings_ok)
  obtain r fs where g: "?g = (r, fs)"
    by (cases ?g)
  have "\<exists>w'. preInit generate dirname cwd cfg w = Inr w' \<and> files w' = fs"
    using step g by (cases r) (simp_all add: preInit_def join_strings_ok console_log_def)
  then obtain w' where w': "preInit generate dirname cwd cfg w = Inr w'" and fs: "files w' = fs"
    by blast
  have eq: "files w' = snd ?g"
    using fs g by simp
  have frame: "unchanged_outside within (join_strings [cwd, appName]) (files w) (files w')"
    if "writes_only_within within generate"
    using that eq by (simp add: writes_only_within_def)
  show ?thesis
    using ex w' eq frame by simp
qed

theorem preInit_target_directory_witness:
  "[''appName'' \<mapsto> JStr ''my-app''] ''appName'' = Some (JStr ''my-app'') \<and>
   writes_only_within inside writing_generator \<and>
   preInit writing_generator ''/pkg/dist'' ''/tmp/x'' [''appName'' \<mapsto> JStr ''my-app'']
      \<lparr>files = Map.empty, console = []\<rparr>
     = Inr \<lparr>files = [''/tmp/x/my-app/index.html'' \<mapsto> ''/pkg/src/templates/vanilla''],
            console = []\<rparr> \<and>
   inside ''/tmp/x/my-app'' ''/tmp/x/my-app/index.html'' \<and>
   unchanged_outside inside ''/tmp/x/my-app'' Map.empty
      [''/tmp/x/my-app/index.html'' \<mapsto> ''/pkg/src/templates/vanilla'']"
proof -
  have h: "[''appName'' \<mapsto> JStr ''my-app''] ''appName'' = Some (JStr ''my-app'')"
    by simp
  have c: "writes_only_within inside writing_generator"
    by (auto simp: writes_only_within_def unchanged_outside_def writing_generator_def inside_def)
  have run: "preInit writing_generator ''/pkg/dist'' ''/tmp/x'' [''appName'' \<mapsto> JStr ''my-app'']
      \<lparr>files = Map.empty, console = []\<rparr>
     = Inr \<lparr>files = [''/tmp/x/my-app/index.html'' \<mapsto> ''/pkg/src/templates/vanilla''],
            console = []\<rparr>"
    by (simp add: preInit_def generate_step_def get_prop_def writing_generator_def join_def
        join_strings_def normalize_def)
  have i: "inside ''/tmp/x/my-app'' ''/tmp/x/my-app/index.html''"
    by (simp add: inside_def)
  show ?thesis
    using h c run i
      preInit_target_directory [where cfg = "[''appName'' \<mapsto> JStr ''my-app'']"
        and appName = "''my-app''" and generate = writing_generator
        and dirname = "''/pkg/dist''" and cwd = "''/tmp/x''"
        and w = "\<lparr>files = Map.empty, console = []\<rparr>" and within = inside, OF h]
    by (simp add: join_strings_def normalize_def writing_generator_def)
qed

end
